theory Spec2Isabelle
  imports Main "HOL-Library.AList"
begin

section \<open>Python values, dictionaries and errors\<close>

text \<open>
  The repository (utils/data_manager.py) keeps one JSON document in memory: a dictionary of
  lists of flat dictionaries. A dictionary is an association list in insertion order; a
  value is one of the JSON-like values the application stores. A float is kept as the text
  it was read from and is never interpreted: every operation whose answer would depend on
  the binary64 value of a float (arithmetic, comparison with a number, truth test,
  formatting) answers \<open>Unmodelled\<close>, which is an answer of this model and not a Python
  exception. Strings are byte strings (ASCII text in every example).
\<close>

datatype pyval = PNone | PStr string | PInt int | PFloat string | PList "string list"

type_synonym pydict = "(string \<times> pyval) list"

datatype error = KeyError | ValueError | TypeError | Unmodelled

definition getitem :: "pydict \<Rightarrow> string \<Rightarrow> error + pyval" where
  \<comment> \<open>\<open>d[k]\<close>\<close>
  "getitem d k = (case map_of d k of None \<Rightarrow> Inl KeyError | Some v \<Rightarrow> Inr v)"

definition get_or :: "pydict \<Rightarrow> string \<Rightarrow> pyval \<Rightarrow> pyval" where
  \<comment> \<open>\<open>d.get(k, default)\<close>\<close>
  "get_or d k dflt = (case map_of d k of None \<Rightarrow> dflt | Some v \<Rightarrow> v)"

definition setitem :: "pydict \<Rightarrow> string \<Rightarrow> pyval \<Rightarrow> pydict" where
  \<comment> \<open>\<open>d[k] = v\<close>: an existing key keeps its place, a new key goes last\<close>
  "setitem d k v = AList.update k v d"

fun dict_update :: "pydict \<Rightarrow> pydict \<Rightarrow> pydict" where
  \<comment> \<open>\<open>d.update(u)\<close>\<close>
  "dict_update d [] = d"
| "dict_update d ((k, v) # u) = dict_update (setitem d k v) u"

definition is_number :: "pyval \<Rightarrow> bool" where
  "is_number v = (case v of PInt _ \<Rightarrow> True | PFloat _ \<Rightarrow> True | _ \<Rightarrow> False)"

definition is_float :: "pyval \<Rightarrow> bool" where
  "is_float v = (case v of PFloat _ \<Rightarrow> True | _ \<Rightarrow> False)"

definition py_eq :: "pyval \<Rightarrow> pyval \<Rightarrow> error + bool" where
  \<comment> \<open>\<open>a == b\<close>; a float against a number is not modelled\<close>
  "py_eq a b =
     (if (is_float a \<and> is_number b) \<or> (is_number a \<and> is_float b) then Inl Unmodelled
      else Inr (a = b))"

definition truthy :: "pyval \<Rightarrow> error + bool" where
  \<comment> \<open>the truth value of \<open>v\<close> in \<open>if v\<close>\<close>
  "truthy v =
     (case v of PNone \<Rightarrow> Inr False | PStr s \<Rightarrow> Inr (s \<noteq> []) | PInt n \<Rightarrow> Inr (n \<noteq> 0)
      | PFloat _ \<Rightarrow> Inl Unmodelled | PList xs \<Rightarrow> Inr (xs \<noteq> []))"

subsection \<open>Decimal formatting\<close>

definition digit_char :: "nat \<Rightarrow> char" where
  "digit_char n = ''0123456789'' ! (n mod 10)"

function dec :: "nat \<Rightarrow> string" where
  \<comment> \<open>\<open>str(n)\<close> for a non-negative integer\<close>
  "dec n = (if n < 10 then [digit_char n] else dec (n div 10) @ [digit_char n])"
  by pat_completeness auto
termination
  by (relation "measure id") auto

declare dec.simps [simp del]

definition zfill :: "nat \<Rightarrow> string \<Rightarrow> string" where
  \<comment> \<open>\<open>s.zfill(w)\<close> for a string of digits; also the zero padding of \<open>{n:03d}\<close>\<close>
  "zfill w s = replicate (w - length s) CHR ''0'' @ s"

definition str_int :: "int \<Rightarrow> string" where
  "str_int i = (if i < 0 then CHR ''-'' # dec (nat (- i)) else dec (nat i))"

definition py_str :: "pyval \<Rightarrow> error + string" where
  \<comment> \<open>the text a value takes in an f-string; the repr of a float or of a list is not modelled\<close>
  "py_str v =
     (case v of PNone \<Rightarrow> Inr ''None'' | PStr s \<Rightarrow> Inr s | PInt i \<Rightarrow> Inr (str_int i)
      | PFloat _ \<Rightarrow> Inl Unmodelled | PList _ \<Rightarrow> Inl Unmodelled)"

subsection \<open>The clock\<close>

text \<open>
  \<open>datetime.now()\<close> is an input: the calendar date and the text of the time of day. All the
  clock readings of one call are taken at one instant. Years have four digits, as the
  system clock gives them.
\<close>

record clock =
  c_year :: nat
  c_month :: nat
  c_day :: nat
  c_time :: string

type_synonym date = "nat \<times> nat \<times> nat"

definition today_date :: "clock \<Rightarrow> date" where
  \<comment> \<open>\<open>datetime.now().date()\<close>\<close>
  "today_date c = (c_year c, c_month c, c_day c)"

definition strftime_ymd :: "clock \<Rightarrow> string" where
  \<comment> \<open>\<open>datetime.now().strftime('%Y-%m-%d')\<close>\<close>
  "strftime_ymd c =
     zfill 4 (dec (c_year c)) @ ''-'' @ zfill 2 (dec (c_month c)) @ ''-'' @ zfill 2 (dec (c_day c))"

definition isoformat :: "clock \<Rightarrow> string" where
  \<comment> \<open>\<open>datetime.now().isoformat()\<close>\<close>
  "isoformat c = strftime_ymd c @ ''T'' @ c_time c"

section \<open>The data repository (utils/data_manager.py)\<close>

record store =
  users :: "pydict list"
  clients :: "pydict list"
  projects :: "pydict list"
  employees :: "pydict list"
  attendance :: "pydict list"
  leads :: "pydict list"
  tasks :: "pydict list"
  daily_otp :: "pyval option"
  daily_otp_date :: "pyval option"
  analytics :: pydict

text \<open>The \<open>DataManager\<close>: the document in memory and the document last written to the file.\<close>

record dm =
  data :: store
  disk :: store

definition get_default_structure :: store where
  "get_default_structure =
     \<lparr> users = [], clients = [], projects = [], employees = [], attendance = [], leads = [],
       tasks = [], daily_otp = Some (PStr []), daily_otp_date = None,
       analytics = [(''installation_revenue'', PInt 0), (''manufacturing_revenue'', PInt 0),
                    (''total_projects'', PInt 0), (''active_employees'', PInt 0)] \<rparr>"

definition save_data :: "dm \<Rightarrow> dm" where
  \<comment> \<open>\<open>json.dump(self.data, f)\<close>: the whole document replaces the file\<close>
  "save_data s = s\<lparr>disk := data s\<rparr>"

definition initial_dm :: dm where
  \<comment> \<open>\<open>load_data\<close> with no file present\<close>
  "initial_dm = save_data \<lparr> data = get_default_structure, disk = get_default_structure \<rparr>"

subsection \<open>Linear scans shared by the entity operations\<close>

fun find_by_id :: "pydict list \<Rightarrow> pyval \<Rightarrow> error + pydict option" where
  \<comment> \<open>\<open>for r in rs: if r['id'] == i: return r\<close>, then \<open>return None\<close>\<close>
  "find_by_id [] i = Inr None"
| "find_by_id (r # rs) i =
     (case getitem r ''id'' of
        Inl e \<Rightarrow> Inl e
      | Inr v \<Rightarrow> (case py_eq v i of
                    Inl e \<Rightarrow> Inl e
                  | Inr b \<Rightarrow> if b then Inr (Some r) else find_by_id rs i))"

fun modify_found :: "(pydict \<Rightarrow> pydict) \<Rightarrow> pydict list \<Rightarrow> pyval \<Rightarrow> pydict list" where
  \<comment> \<open>the in-place mutation of the record that \<open>find_by_id\<close> returned: the first match\<close>
  "modify_found f [] i = []"
| "modify_found f (r # rs) i =
     (if (case getitem r ''id'' of Inl e \<Rightarrow> False | Inr v \<Rightarrow> py_eq v i = Inr True)
      then f r # rs else r # modify_found f rs i)"

fun filterE :: "('a \<Rightarrow> error + bool) \<Rightarrow> 'a list \<Rightarrow> error + 'a list" where
  \<comment> \<open>a list comprehension whose condition may raise\<close>
  "filterE p [] = Inr []"
| "filterE p (x # xs) =
     (case p x of
        Inl e \<Rightarrow> Inl e
      | Inr b \<Rightarrow> (case filterE p xs of
                    Inl e \<Rightarrow> Inl e
                  | Inr ys \<Rightarrow> Inr (if b then x # ys else ys)))"

definition field_is :: "string \<Rightarrow> string \<Rightarrow> pydict \<Rightarrow> error + bool" where
  \<comment> \<open>\<open>r[k] == 'text'\<close>\<close>
  "field_is k t r = (case getitem r k of Inl e \<Rightarrow> Inl e | Inr v \<Rightarrow> Inr (v = PStr t))"

definition and_then :: "(pydict \<Rightarrow> error + bool) \<Rightarrow> (pydict \<Rightarrow> error + bool) \<Rightarrow> pydict \<Rightarrow> error + bool" where
  \<comment> \<open>\<open>p(r) and q(r)\<close>: the right side is evaluated only when the left is true\<close>
  "and_then p q r = (case p r of Inl e \<Rightarrow> Inl e | Inr b \<Rightarrow> if b then q r else Inr False)"

definition ebind :: "error + 'a \<Rightarrow> ('a \<Rightarrow> error + 'b) \<Rightarrow> error + 'b" where
  \<comment> \<open>a raise ends the computation\<close>
  "ebind m f = (case m of Inl e \<Rightarrow> Inl e | Inr x \<Rightarrow> f x)"

definition new_id :: "string \<Rightarrow> pydict list \<Rightarrow> string" where
  \<comment> \<open>\<open>f"{prefix}_{len(collection) + 1:03d}"\<close>\<close>
  "new_id prefix rs = prefix @ ''_'' @ zfill 3 (dec (length rs + 1))"

fun remove_by_id :: "pydict list \<Rightarrow> pyval \<Rightarrow> error + pydict list option" where
  \<comment> \<open>\<open>for i, r in enumerate(rs): if r['id'] == x: del rs[i]; return True\<close>; \<open>None\<close> when no
      record matches\<close>
  "remove_by_id [] i = Inr None"
| "remove_by_id (r # rs) i =
     (case getitem r ''id'' of
        Inl e \<Rightarrow> Inl e
      | Inr v \<Rightarrow> (case py_eq v i of
                    Inl e \<Rightarrow> Inl e
                  | Inr b \<Rightarrow> if b then Inr (Some rs)
                            else (case remove_by_id rs i of
                                    Inl e \<Rightarrow> Inl e
                                  | Inr None \<Rightarrow> Inr None
                                  | Inr (Some rs') \<Rightarrow> Inr (Some (r # rs')))))"

definition soft_delete :: "string \<Rightarrow> clock \<Rightarrow> pydict \<Rightarrow> pydict" where
  \<comment> \<open>\<open>r['status'] = text; r['deleted_at'] = datetime.now().isoformat()\<close>\<close>
  "soft_delete text now r =
     setitem (setitem r ''status'' (PStr text)) ''deleted_at'' (PStr (isoformat now))"

subsection \<open>Users\<close>

definition get_user_by_id :: "dm \<Rightarrow> pyval \<Rightarrow> error + pydict option" where
  "get_user_by_id s user_id = find_by_id (users (data s)) user_id"

definition user_record :: "dm \<Rightarrow> clock \<Rightarrow> string \<Rightarrow> pydict \<Rightarrow> error + pydict" where
  \<comment> \<open>the dictionary that \<open>create_user\<close> builds; \<open>api_key\<close> is the value that
      \<open>security_manager.generate_api_key()\<close> returns\<close>
  "user_record s now api_key user_data =
     ebind (getitem user_data ''role'') (\<lambda>role.
     ebind (py_str role) (\<lambda>role_text.
     ebind (getitem user_data ''name'') (\<lambda>name.
     ebind (getitem user_data ''email'') (\<lambda>email.
     ebind (getitem user_data ''password'') (\<lambda>password.
       Inr [(''id'', PStr (new_id role_text (users (data s)))),
            (''name'', name),
            (''email'', email),
            (''password'', password),
            (''role'', role),
            (''department'', get_or user_data ''department'' (PStr ''General'')),
            (''created_at'', PStr (isoformat now)),
            (''status'', PStr ''active''),
            (''api_key'', PStr api_key)])))))"

definition create_user :: "dm \<Rightarrow> clock \<Rightarrow> string \<Rightarrow> pydict \<Rightarrow> (error + pydict) \<times> dm" where
  "create_user s now api_key user_data =
     (case user_record s now api_key user_data of
        Inl e \<Rightarrow> (Inl e, s)
      | Inr user \<Rightarrow>
          (Inr user, save_data (s\<lparr>data := (data s)\<lparr>users := users (data s) @ [user]\<rparr>\<rparr>)))"

definition delete_user :: "dm \<Rightarrow> clock \<Rightarrow> pyval \<Rightarrow> (error + bool) \<times> dm" where
  "delete_user s now user_id =
     (case get_user_by_id s user_id of
        Inl e \<Rightarrow> (Inl e, s)
      | Inr None \<Rightarrow> (Inr False, s)
      | Inr (Some user) \<Rightarrow>
          if user = [] then (Inr False, s)
          else (Inr True,
                save_data (s\<lparr>data := (data s)\<lparr>users :=
                  modify_found (soft_delete ''inactive'' now) (users (data s)) user_id\<rparr>\<rparr>)))"

definition get_all_users :: "dm \<Rightarrow> string option \<Rightarrow> error + pydict list" where
  "get_all_users s role =
     (case role of
        None \<Rightarrow> filterE (field_is ''status'' ''active'') (users (data s))
      | Some r \<Rightarrow>
          if r \<noteq> []
          then filterE (and_then (field_is ''role'' r) (field_is ''status'' ''active'')) (users (data s))
          else filterE (field_is ''status'' ''active'') (users (data s)))"

subsection \<open>Clients\<close>

definition client_record :: "dm \<Rightarrow> clock \<Rightarrow> pydict \<Rightarrow> error + pydict" where
  "client_record s now client_data =
     ebind (getitem client_data ''name'') (\<lambda>name.
     ebind (getitem client_data ''email'') (\<lambda>email.
     ebind (getitem client_data ''business_type'') (\<lambda>business_type.
       Inr [(''id'', PStr (new_id ''client'' (clients (data s)))),
            (''name'', name),
            (''email'', email),
            (''phone'', get_or client_data ''phone'' (PStr [])),
            (''company'', get_or client_data ''company'' (PStr [])),
            (''business_type'', business_type),
            (''address'', get_or client_data ''address'' (PStr [])),
            (''created_at'', PStr (isoformat now)),
            (''status'', PStr ''active'')])))"

definition create_client :: "dm \<Rightarrow> clock \<Rightarrow> pydict \<Rightarrow> (error + pydict) \<times> dm" where
  "create_client s now client_data =
     (case client_record s now client_data of
        Inl e \<Rightarrow> (Inl e, s)
      | Inr client \<Rightarrow>
          (Inr client, save_data (s\<lparr>data := (data s)\<lparr>clients := clients (data s) @ [client]\<rparr>\<rparr>)))"




subsection \<open>Projects\<close>

definition project_record :: "dm \<Rightarrow> clock \<Rightarrow> pydict \<Rightarrow> error + pydict" where
  "project_record s now project_data =
     ebind (getitem project_data ''name'') (\<lambda>name.
     ebind (getitem project_data ''type'') (\<lambda>type.
     ebind (getitem project_data ''client_id'') (\<lambda>client_id.
     ebind (getitem project_data ''created_by'') (\<lambda>created_by.
       Inr [(''id'', PStr (new_id ''project'' (projects (data s)))),
            (''name'', name),
            (''type'', type),
            (''client_id'', client_id),
            (''description'', get_or project_data ''description'' (PStr [])),
            (''status'', PStr ''pending''),
            (''start_date'', get_or project_data ''start_date'' (PStr [])),
            (''end_date'', get_or project_data ''end_date'' (PStr [])),
            (''budget'', get_or project_data ''budget'' (PInt 0)),
            (''assigned_employees'', get_or project_data ''assigned_employees'' (PList [])),
            (''created_at'', PStr (isoformat now)),
            (''created_by'', created_by)]))))"

definition create_project :: "dm \<Rightarrow> clock \<Rightarrow> pydict \<Rightarrow> (error + pydict) \<times> dm" where
  "create_project s now project_data =
     (case project_record s now project_data of
        Inl e \<Rightarrow> (Inl e, s)
      | Inr project \<Rightarrow>
          (Inr project,
           save_data (s\<lparr>data := (data s)\<lparr>projects := projects (data s) @ [project]\<rparr>\<rparr>)))"

definition get_project_by_id :: "dm \<Rightarrow> pyval \<Rightarrow> error + pydict option" where
  "get_project_by_id s project_id = find_by_id (projects (data s)) project_id"

definition delete_project :: "dm \<Rightarrow> clock \<Rightarrow> pyval \<Rightarrow> (error + bool) \<times> dm" where
  "delete_project s now project_id =
     (case get_project_by_id s project_id of
        Inl e \<Rightarrow> (Inl e, s)
      | Inr None \<Rightarrow> (Inr False, s)
      | Inr (Some project) \<Rightarrow>
          if project = [] then (Inr False, s)
          else (Inr True,
                save_data (s\<lparr>data := (data s)\<lparr>projects :=
                  modify_found (soft_delete ''deleted'' now) (projects (data s)) project_id\<rparr>\<rparr>)))"

definition not_deleted :: "pydict \<Rightarrow> bool" where
  \<comment> \<open>\<open>r.get('status') != 'deleted'\<close>\<close>
  "not_deleted r = (get_or r ''status'' PNone \<noteq> PStr ''deleted'')"

definition get_all_projects :: "dm \<Rightarrow> string option \<Rightarrow> error + pydict list" where
  "get_all_projects s project_type =
     (case project_type of
        None \<Rightarrow> Inr (filter not_deleted (projects (data s)))
      | Some t \<Rightarrow>
          if t \<noteq> []
          then filterE (and_then (field_is ''type'' t) (\<lambda>r. Inr (not_deleted r))) (projects (data s))
          else Inr (filter not_deleted (projects (data s))))"

subsection \<open>Leads\<close>

definition lead_record :: "dm \<Rightarrow> clock \<Rightarrow> pydict \<Rightarrow> error + pydict" where
  "lead_record s now lead_data =
     ebind (getitem lead_data ''name'') (\<lambda>name.
     ebind (getitem lead_data ''business_type'') (\<lambda>business_type.
     ebind (getitem lead_data ''created_by'') (\<lambda>created_by.
       Inr [(''id'', PStr (new_id ''lead'' (leads (data s)))),
            (''name'', name),
            (''email'', get_or lead_data ''email'' (PStr [])),
            (''phone'', get_or lead_data ''phone'' (PStr [])),
            (''company'', get_or lead_data ''company'' (PStr [])),
            (''business_type'', business_type),
            (''source'', get_or lead_data ''source'' (PStr [])),
            (''status'', PStr ''new''),
            (''assigned_to'', get_or lead_data ''assigned_to'' (PStr [])),
            (''notes'', get_or lead_data ''notes'' (PStr [])),
            (''created_at'', PStr (isoformat now)),
            (''created_by'', created_by)])))"

definition create_lead :: "dm \<Rightarrow> clock \<Rightarrow> pydict \<Rightarrow> (error + pydict) \<times> dm" where
  "create_lead s now lead_data =
     (case lead_record s now lead_data of
        Inl e \<Rightarrow> (Inl e, s)
      | Inr lead \<Rightarrow>
          (Inr lead, save_data (s\<lparr>data := (data s)\<lparr>leads := leads (data s) @ [lead]\<rparr>\<rparr>)))"

definition get_lead_by_id :: "dm \<Rightarrow> pyval \<Rightarrow> error + pydict option" where
  "get_lead_by_id s lead_id = find_by_id (leads (data s)) lead_id"

definition apply_updates :: "pydict \<Rightarrow> clock \<Rightarrow> pydict \<Rightarrow> pydict" where
  \<comment> \<open>\<open>r.update(updates); r['updated_at'] = datetime.now().isoformat()\<close>\<close>
  "apply_updates updates now r = setitem (dict_update r updates) ''updated_at'' (PStr (isoformat now))"

definition update_lead :: "dm \<Rightarrow> clock \<Rightarrow> pyval \<Rightarrow> pydict \<Rightarrow> (error + pydict option) \<times> dm" where
  "update_lead s now lead_id updates =
     (case get_lead_by_id s lead_id of
        Inl e \<Rightarrow> (Inl e, s)
      | Inr None \<Rightarrow> (Inr None, s)
      | Inr (Some lead) \<Rightarrow>
          if lead = [] then (Inr None, s)
          else (Inr (Some (apply_updates updates now lead)),
                save_data (s\<lparr>data := (data s)\<lparr>leads :=
                  modify_found (apply_updates updates now) (leads (data s)) lead_id\<rparr>\<rparr>)))"

definition delete_lead :: "dm \<Rightarrow> clock \<Rightarrow> pyval \<Rightarrow> (error + bool) \<times> dm" where
  "delete_lead s now lead_id =
     (case get_lead_by_id s lead_id of
        Inl e \<Rightarrow> (Inl e, s)
      | Inr None \<Rightarrow> (Inr False, s)
      | Inr (Some lead) \<Rightarrow>
          if lead = [] then (Inr False, s)
          else (Inr True,
                save_data (s\<lparr>data := (data s)\<lparr>leads :=
                  modify_found (soft_delete ''deleted'' now) (leads (data s)) lead_id\<rparr>\<rparr>)))"

subsection \<open>Tasks\<close>

definition task_record :: "dm \<Rightarrow> clock \<Rightarrow> pydict \<Rightarrow> error + pydict" where
  "task_record s now task_data =
     ebind (getitem task_data ''title'') (\<lambda>title.
     ebind (getitem task_data ''created_by'') (\<lambda>created_by.
       Inr [(''id'', PStr (new_id ''task'' (tasks (data s)))),
            (''title'', title),
            (''description'', get_or task_data ''description'' (PStr [])),
            (''project_id'', get_or task_data ''project_id'' (PStr [])),
            (''assigned_to'', get_or task_data ''assigned_to'' (PStr [])),
            (''priority'', get_or task_data ''priority'' (PStr ''medium'')),
            (''status'', PStr ''pending''),
            (''due_date'', get_or task_data ''due_date'' (PStr [])),
            (''created_at'', PStr (isoformat now)),
            (''created_by'', created_by)]))"

definition create_task :: "dm \<Rightarrow> clock \<Rightarrow> pydict \<Rightarrow> (error + pydict) \<times> dm" where
  "create_task s now task_data =
     (case task_record s now task_data of
        Inl e \<Rightarrow> (Inl e, s)
      | Inr task \<Rightarrow>
          (Inr task, save_data (s\<lparr>data := (data s)\<lparr>tasks := tasks (data s) @ [task]\<rparr>\<rparr>)))"

definition delete_task :: "dm \<Rightarrow> pyval \<Rightarrow> (error + bool) \<times> dm" where
  "delete_task s task_id =
     (case remove_by_id (tasks (data s)) task_id of
        Inl e \<Rightarrow> (Inl e, s)
      | Inr None \<Rightarrow> (Inr False, s)
      | Inr (Some rest) \<Rightarrow> (Inr True, save_data (s\<lparr>data := (data s)\<lparr>tasks := rest\<rparr>\<rparr>)))"

subsection \<open>Attendance\<close>

definition attendance_record :: "dm \<Rightarrow> pydict \<Rightarrow> error + pydict" where
  "attendance_record s attendance_data =
     ebind (getitem attendance_data ''employee_id'') (\<lambda>employee_id.
     ebind (getitem attendance_data ''date'') (\<lambda>date.
       Inr [(''id'', PStr (new_id ''attendance'' (attendance (data s)))),
            (''employee_id'', employee_id),
            (''date'', date),
            (''check_in'', get_or attendance_data ''check_in'' (PStr [])),
            (''check_out'', get_or attendance_data ''check_out'' (PStr [])),
            (''otp_used'', get_or attendance_data ''otp_used'' (PStr [])),
            (''location'', get_or attendance_data ''location'' (PStr [])),
            (''status'', PStr ''present'')]))"

definition create_attendance_record :: "dm \<Rightarrow> pydict \<Rightarrow> (error + pydict) \<times> dm" where
  "create_attendance_record s attendance_data =
     (case attendance_record s attendance_data of
        Inl e \<Rightarrow> (Inl e, s)
      | Inr record \<Rightarrow>
          (Inr record,
           save_data (s\<lparr>data := (data s)\<lparr>attendance := attendance (data s) @ [record]\<rparr>\<rparr>)))"

definition delete_attendance :: "dm \<Rightarrow> pyval \<Rightarrow> (error + bool) \<times> dm" where
  "delete_attendance s attendance_id =
     (case remove_by_id (attendance (data s)) attendance_id of
        Inl e \<Rightarrow> (Inl e, s)
      | Inr None \<Rightarrow> (Inr False, s)
      | Inr (Some rest) \<Rightarrow> (Inr True, save_data (s\<lparr>data := (data s)\<lparr>attendance := rest\<rparr>\<rparr>)))"

text \<open>
  \<open>get_attendance_by_date\<close> walks the stored records and writes into each matching one. The
  scan returns what the call returns (the list of records, or the exception) together
  with the stored list as the loop left it: on a raise, the records visited before it
  keep what was written into them.
\<close>

fun attendance_scan ::
  "dm \<Rightarrow> string \<Rightarrow> string option \<Rightarrow> pydict list \<Rightarrow> (error + pydict list) \<times> pydict list" where
  "attendance_scan s date department [] = (Inr [], [])"
| "attendance_scan s date department (r # rs) =
     (case getitem r ''date'' of
        Inl e \<Rightarrow> (Inl e, r # rs)
      | Inr d \<Rightarrow>
          if d \<noteq> PStr date
          then (case attendance_scan s date department rs of (res, rs') \<Rightarrow> (res, r # rs'))
          else
            (case getitem r ''employee_id'' of
               Inl e \<Rightarrow> (Inl e, r # rs)
             | Inr employee_id \<Rightarrow>
                 (case get_user_by_id s employee_id of
                    Inl e \<Rightarrow> (Inl e, r # rs)
                  | Inr None \<Rightarrow>
                      (case attendance_scan s date department rs of (res, rs') \<Rightarrow> (res, r # rs'))
                  | Inr (Some employee) \<Rightarrow>
                      if employee = []
                      then (case attendance_scan s date department rs of (res, rs') \<Rightarrow> (res, r # rs'))
                      else
                        (case getitem employee ''name'' of
                           Inl e \<Rightarrow> (Inl e, r # rs)
                         | Inr name \<Rightarrow>
                             (case getitem employee ''department'' of
                                Inl e \<Rightarrow> (Inl e, setitem r ''employee_name'' name # rs)
                              | Inr dept \<Rightarrow>
                                  let r' = setitem (setitem r ''employee_name'' name) ''department'' dept
                                  in (case attendance_scan s date department rs of
                                        (res, rs') \<Rightarrow>
                                          if (case department of None \<Rightarrow> False | Some w \<Rightarrow> w \<noteq> [] \<and> dept \<noteq> PStr w)
                                          then (res, r' # rs')
                                          else (case res of
                                                  Inl e \<Rightarrow> (Inl e, r' # rs')
                                                | Inr found \<Rightarrow> (Inr (r' # found), r' # rs'))))))))"

definition get_attendance_by_date :: "dm \<Rightarrow> string \<Rightarrow> string option \<Rightarrow> (error + pydict list) \<times> dm" where
  \<comment> \<open>no \<open>save_data\<close>: the file keeps the document written last\<close>
  "get_attendance_by_date s date department =
     (case attendance_scan s date department (attendance (data s)) of
        (res, rs') \<Rightarrow> (res, s\<lparr>data := (data s)\<lparr>attendance := rs'\<rparr>\<rparr>))"

subsection \<open>The daily code\<close>

definition set_daily_otp :: "dm \<Rightarrow> clock \<Rightarrow> string \<Rightarrow> string \<times> dm" where
  "set_daily_otp s now otp =
     (otp, save_data (s\<lparr>data := (data s)\<lparr>daily_otp := Some (PStr otp),
                                          daily_otp_date := Some (PStr (strftime_ymd now))\<rparr>\<rparr>))"

definition generate_daily_otp :: "dm \<Rightarrow> clock \<Rightarrow> nat \<Rightarrow> string \<times> dm" where
  \<comment> \<open>\<open>draw\<close> is the number that \<open>secrets.randbelow(100000)\<close> returns, below 100000\<close>
  "generate_daily_otp s now draw = set_daily_otp s now (zfill 5 (dec draw))"

definition get_daily_otp :: "dm \<Rightarrow> clock \<Rightarrow> nat \<Rightarrow> pyval \<times> dm" where
  \<comment> \<open>\<open>draw\<close> is used only when the code is generated anew\<close>
  "get_daily_otp s now draw =
     (let today = strftime_ymd now;
          stored_date = (case daily_otp_date (data s) of None \<Rightarrow> PStr [] | Some v \<Rightarrow> v)
      in if stored_date \<noteq> PStr today
         then (case generate_daily_otp s now draw of (otp, s') \<Rightarrow> (PStr otp, s'))
         else ((case daily_otp (data s) of None \<Rightarrow> PStr [] | Some v \<Rightarrow> v), s))"

subsection \<open>Dates: \<open>datetime.strptime(text, '%Y-%m-%d').date()\<close>\<close>

text \<open>
  The format is matched as the library's regular expression does: four digits for the
  year; for the month \<open>1[0-2]\<close>, \<open>0[1-9]\<close> or \<open>[1-9]\<close>; for the day \<open>3[01]\<close>,
  \<open>[12]\<close> and a digit, \<open>0[1-9]\<close>, \<open>[1-9]\<close> or a space and \<open>[1-9]\<close>, each tried in
  this order; nothing may follow. The date must exist (year from 1, day within the month).
\<close>

definition is_digit :: "char \<Rightarrow> bool" where
  "is_digit c = (c \<in> set ''0123456789'')"

definition nonzero_digit :: "char \<Rightarrow> bool" where
  "nonzero_digit c = (c \<in> set ''123456789'')"

definition digit_val :: "char \<Rightarrow> nat" where
  "digit_val c = of_char c - 48"

fun parse_month :: "string \<Rightarrow> (nat \<times> string) option" where
  "parse_month [] = None"
| "parse_month [a] = (if nonzero_digit a then Some (digit_val a, []) else None)"
| "parse_month (a # b # r) =
     (if a = CHR ''1'' \<and> b \<in> set ''012'' then Some (10 + digit_val b, r)
      else if a = CHR ''0'' \<and> nonzero_digit b then Some (digit_val b, r)
      else if nonzero_digit a then Some (digit_val a, b # r)
      else None)"

fun parse_day :: "string \<Rightarrow> (nat \<times> string) option" where
  "parse_day [] = None"
| "parse_day [a] = (if nonzero_digit a then Some (digit_val a, []) else None)"
| "parse_day (a # b # r) =
     (if a = CHR ''3'' \<and> b \<in> set ''01'' then Some (30 + digit_val b, r)
      else if a \<in> set ''12'' \<and> is_digit b then Some (10 * digit_val a + digit_val b, r)
      else if a = CHR ''0'' \<and> nonzero_digit b then Some (digit_val b, r)
      else if nonzero_digit a then Some (digit_val a, b # r)
      else if a = CHR '' '' \<and> nonzero_digit b then Some (digit_val b, r)
      else None)"

definition leap_year :: "nat \<Rightarrow> bool" where
  "leap_year y = (y mod 4 = 0 \<and> (y mod 100 \<noteq> 0 \<or> y mod 400 = 0))"

definition days_in_month :: "nat \<Rightarrow> nat \<Rightarrow> nat" where
  "days_in_month y m =
     (if m = 2 then (if leap_year y then 29 else 28)
      else if m = 4 \<or> m = 6 \<or> m = 9 \<or> m = 11 then 30 else 31)"

definition strptime_ymd :: "string \<Rightarrow> error + date" where
  "strptime_ymd text =
     (case text of
        y1 # y2 # y3 # y4 # h # rest \<Rightarrow>
          if is_digit y1 \<and> is_digit y2 \<and> is_digit y3 \<and> is_digit y4 \<and> h = CHR ''-''
          then (case parse_month rest of
                  Some (m, h' # rest') \<Rightarrow>
                    if h' = CHR ''-''
                    then (case parse_day rest' of
                            Some (d, []) \<Rightarrow>
                              let y = 1000 * digit_val y1 + 100 * digit_val y2
                                      + 10 * digit_val y3 + digit_val y4
                              in if 1 \<le> y \<and> d \<le> days_in_month y m then Inr (y, m, d)
                                 else Inl ValueError
                          | _ \<Rightarrow> Inl ValueError)
                    else Inl ValueError
                | _ \<Rightarrow> Inl ValueError)
          else Inl ValueError
      | _ \<Rightarrow> Inl ValueError)"

definition date_le :: "date \<Rightarrow> date \<Rightarrow> bool" where
  \<comment> \<open>\<open>a <= b\<close> on dates\<close>
  "date_le a b =
     (case a of (y, m, d) \<Rightarrow> case b of (y', m', d') \<Rightarrow>
        y < y' \<or> (y = y' \<and> (m < m' \<or> (m = m' \<and> d \<le> d'))))"

definition date_field :: "pyval \<Rightarrow> error + date option" where
  \<comment> \<open>\<open>datetime.strptime(v, '%Y-%m-%d').date() if v else None\<close>\<close>
  "date_field v =
     ebind (truthy v) (\<lambda>t.
       if t then (case v of PStr text \<Rightarrow> ebind (strptime_ymd text) (\<lambda>d. Inr (Some d))
                          | _ \<Rightarrow> Inl TypeError)
       else Inr None)"

subsection \<open>Business process automation\<close>

definition reached :: "clock \<Rightarrow> date option \<Rightarrow> bool" where
  \<comment> \<open>\<open>d and today >= d\<close>\<close>
  "reached now d = (case d of None \<Rightarrow> False | Some x \<Rightarrow> date_le x (today_date now))"

definition set_status :: "string \<Rightarrow> clock \<Rightarrow> pydict \<Rightarrow> pydict" where
  \<comment> \<open>\<open>project['status'] = text; project['updated_at'] = datetime.now().isoformat()\<close>\<close>
  "set_status text now p =
     setitem (setitem p ''status'' (PStr text)) ''updated_at'' (PStr (isoformat now))"

definition project_step :: "clock \<Rightarrow> pydict \<Rightarrow> error + pydict" where
  \<comment> \<open>the body of the loop of \<open>auto_update_project_status\<close>: every raise comes before the
      first write into the project\<close>
  "project_step now project =
     ebind (getitem project ''status'') (\<lambda>status.
       if status = PStr ''pending'' \<or> status = PStr ''in_progress''
       then
         ebind (getitem project ''start_date'') (\<lambda>sv.
         ebind (date_field sv) (\<lambda>start_date.
         ebind (getitem project ''end_date'') (\<lambda>ev.
         ebind (date_field ev) (\<lambda>end_date.
           let p1 = (if reached now start_date \<and> status = PStr ''pending''
                     then set_status ''in_progress'' now project else project);
               p2 = (if reached now end_date \<and> getitem p1 ''status'' = Inr (PStr ''in_progress'')
                     then set_status ''completed'' now p1 else p1)
           in Inr p2))))
       else Inr project)"

fun auto_update_loop :: "clock \<Rightarrow> pydict list \<Rightarrow> error option \<times> pydict list" where
  \<comment> \<open>the projects as the loop leaves them, and the exception that ended it, if any\<close>
  "auto_update_loop now [] = (None, [])"
| "auto_update_loop now (p # ps) =
     (case project_step now p of
        Inl e \<Rightarrow> (Some e, p # ps)
      | Inr p' \<Rightarrow> (case auto_update_loop now ps of (r, ps') \<Rightarrow> (r, p' # ps')))"

definition auto_update_project_status :: "dm \<Rightarrow> clock \<Rightarrow> (error + unit) \<times> dm" where
  "auto_update_project_status s now =
     (case auto_update_loop now (projects (data s)) of
        (Some e, ps) \<Rightarrow> (Inl e, s\<lparr>data := (data s)\<lparr>projects := ps\<rparr>\<rparr>)
      | (None, ps) \<Rightarrow> (Inr (), save_data (s\<lparr>data := (data s)\<lparr>projects := ps\<rparr>\<rparr>)))"

section \<open>The analytics engine (utils/analytics_engine.py)\<close>

text \<open>
  The budgets are summed as Python integers. Where the engine computes with floats, the
  model only follows whether the computation raises, and leaves the float-valued entries
  of the result out. An integer enters float arithmetic exactly when it is at most \<open>2^53\<close>
  in magnitude; beyond that the conversion rounds or overflows and is not modelled.
\<close>

definition py_add :: "int \<Rightarrow> pyval \<Rightarrow> error + int" where
  \<comment> \<open>\<open>acc + v\<close> for an integer \<open>acc\<close>\<close>
  "py_add acc v =
     (case v of PInt n \<Rightarrow> Inr (acc + n) | PFloat _ \<Rightarrow> Inl Unmodelled | _ \<Rightarrow> Inl TypeError)"

fun sum_from :: "int \<Rightarrow> pyval list \<Rightarrow> error + int" where
  "sum_from acc [] = Inr acc"
| "sum_from acc (v # vs) = ebind (py_add acc v) (\<lambda>acc'. sum_from acc' vs)"

definition py_sum :: "pyval list \<Rightarrow> error + int" where
  \<comment> \<open>\<open>sum(...)\<close>, from 0, left to right\<close>
  "py_sum vs = sum_from 0 vs"

definition budget_of :: "pydict \<Rightarrow> pyval" where
  \<comment> \<open>\<open>p.get('budget', 0)\<close>\<close>
  "budget_of p = get_or p ''budget'' (PInt 0)"

definition has_type :: "string \<Rightarrow> pydict \<Rightarrow> bool" where
  \<comment> \<open>\<open>p.get('type') == text\<close>\<close>
  "has_type text p = (get_or p ''type'' PNone = PStr text)"

definition float_operand :: "pyval \<Rightarrow> error + unit" where
  \<comment> \<open>a value as the other operand of a float addition or multiplication\<close>
  "float_operand v =
     (case v of
        PInt n \<Rightarrow> if \<bar>n\<bar> \<le> 2 ^ 53 then Inr () else Inl Unmodelled
      | PFloat _ \<Rightarrow> Inr ()
      | _ \<Rightarrow> Inl TypeError)"

fun for_each :: "('a \<Rightarrow> error + unit) \<Rightarrow> 'a list \<Rightarrow> error + unit" where
  "for_each f [] = Inr ()"
| "for_each f (x # xs) = ebind (f x) (\<lambda>_. for_each f xs)"

definition monthly_revenue_step :: "pydict \<Rightarrow> error + unit" where
  \<comment> \<open>\<open>if project.get('created_at'): monthly_revenue[project['created_at'][:7]] +=
      project.get('budget', 0)\<close>\<close>
  "monthly_revenue_step p =
     ebind (truthy (get_or p ''created_at'' PNone)) (\<lambda>t.
       if t then (case get_or p ''created_at'' PNone of
                    PStr _ \<Rightarrow> float_operand (budget_of p)
                  | _ \<Rightarrow> Inl TypeError)
       else Inr ())"

definition get_financial_analytics :: "dm \<Rightarrow> error + pydict" where
  \<comment> \<open>\<open>_get_financial_analytics\<close>: the entries \<open>total_revenue\<close>, \<open>installation_revenue\<close> and
      \<open>manufacturing_revenue\<close> of the result\<close>
  "get_financial_analytics s =
     ebind (get_all_projects s None) (\<lambda>ps.
     ebind (py_sum (map budget_of (filter (has_type ''installation'') ps))) (\<lambda>installation_revenue.
     ebind (py_sum (map budget_of (filter (has_type ''manufacturing'') ps))) (\<lambda>manufacturing_revenue.
     ebind (for_each monthly_revenue_step ps) (\<lambda>_.
     ebind (for_each (\<lambda>p. float_operand (budget_of p)) ps) (\<lambda>_.
     ebind (py_sum (map budget_of ps)) (\<lambda>total_revenue.
       Inr [(''total_revenue'', PInt total_revenue),
            (''installation_revenue'', PInt installation_revenue),
            (''manufacturing_revenue'', PInt manufacturing_revenue)]))))))"

record report =
  report_type :: string
  generated_at :: string
  report_data :: pydict
  filters_applied :: pydict

datatype reply = Report report | ErrorReply string

definition filters_or_empty :: "pydict option \<Rightarrow> pydict" where
  \<comment> \<open>\<open>filters or {}\<close>\<close>
  "filters_or_empty filters = (case filters of None \<Rightarrow> [] | Some f \<Rightarrow> f)"

definition generate_financial_report :: "dm \<Rightarrow> clock \<Rightarrow> pydict option \<Rightarrow> error + reply" where
  "generate_financial_report s now filters =
     ebind (get_financial_analytics s) (\<lambda>d.
       Inr (Report \<lparr> report_type = ''financial'', generated_at = isoformat now,
                     report_data = d, filters_applied = filters_or_empty filters \<rparr>))"

text \<open>
  \<open>_get_operational_analytics\<close> and \<open>_get_performance_analytics\<close> take no argument but the
  engine: they read the repository and the clock and compute floats (means, rates). They
  enter the model as the parameters \<open>operational\<close> and \<open>performance\<close>, any functions of
  the repository and the clock.
\<close>

definition generate_operational_report ::
  "(dm \<Rightarrow> clock \<Rightarrow> error + pydict) \<Rightarrow> dm \<Rightarrow> clock \<Rightarrow> pydict option \<Rightarrow> error + reply" where
  "generate_operational_report operational s now filters =
     ebind (operational s now) (\<lambda>d.
       Inr (Report \<lparr> report_type = ''operational'', generated_at = isoformat now,
                     report_data = d, filters_applied = filters_or_empty filters \<rparr>))"

definition generate_performance_report ::
  "(dm \<Rightarrow> clock \<Rightarrow> error + pydict) \<Rightarrow> dm \<Rightarrow> clock \<Rightarrow> pydict option \<Rightarrow> error + reply" where
  "generate_performance_report performance s now filters =
     ebind (performance s now) (\<lambda>d.
       Inr (Report \<lparr> report_type = ''performance'', generated_at = isoformat now,
                     report_data = d, filters_applied = filters_or_empty filters \<rparr>))"

definition generate_custom_report ::
  "(dm \<Rightarrow> clock \<Rightarrow> error + pydict) \<Rightarrow> (dm \<Rightarrow> clock \<Rightarrow> error + pydict) \<Rightarrow>
   dm \<Rightarrow> clock \<Rightarrow> string \<Rightarrow> pydict option \<Rightarrow> error + reply" where
  "generate_custom_report operational performance s now rtype filters =
     (if rtype = ''financial'' then generate_financial_report s now filters
      else if rtype = ''operational'' then generate_operational_report operational s now filters
      else if rtype = ''performance'' then generate_performance_report performance s now filters
      else Inr (ErrorReply ''Unknown report type''))"

definition data_of :: "error + reply \<Rightarrow> (error + pydict) option" where
  \<comment> \<open>the \<open>data\<close> entry of a report, or the exception raised while computing it; \<open>None\<close> for
      the error reply, which has no such entry\<close>
  "data_of r =
     (case r of Inl e \<Rightarrow> Some (Inl e) | Inr (Report rep) \<Rightarrow> Some (Inr (report_data rep))
      | Inr (ErrorReply _) \<Rightarrow> None)"

section \<open>Lead conversion (routes/admin.py)\<close>

subsection \<open>\<open>float(text)\<close>\<close>

text \<open>
  Python's \<open>float\<close> on a string: white space around the text is dropped, a sign may lead,
  then come \<open>inf\<close>, \<open>infinity\<close> or \<open>nan\<close> in any case, or digits with an optional
  fraction and an optional exponent; single underscores may stand between digits. The
  result is kept as \<open>PFloat\<close> of the text; anything else raises \<open>ValueError\<close>.
\<close>

definition is_space :: "char \<Rightarrow> bool" where
  "is_space c = (c \<in> set [CHR 0x09, CHR 0x0A, CHR 0x0B, CHR 0x0C, CHR 0x0D, CHR 0x20])"

definition strip :: "string \<Rightarrow> string" where
  "strip t = rev (dropWhile is_space (rev (dropWhile is_space t)))"

definition drop_sign :: "string \<Rightarrow> string" where
  "drop_sign t = (case t of [] \<Rightarrow> [] | c # r \<Rightarrow> if c = CHR ''+'' \<or> c = CHR ''-'' then r else t)"

definition lower :: "char \<Rightarrow> char" where
  "lower c = (let n = (of_char c :: nat) in if 65 \<le> n \<and> n \<le> 90 then char_of (n + 32) else c)"

fun digitpart :: "string \<Rightarrow> bool" where
  "digitpart [] = False"
| "digitpart [c] = is_digit c"
| "digitpart (c # d # r) =
     (is_digit c \<and> (if d = CHR ''_'' then digitpart r else digitpart (d # r)))"

definition cut :: "(char \<Rightarrow> bool) \<Rightarrow> string \<Rightarrow> string \<times> string option" where
  \<comment> \<open>the text before the first separator, and the text after it if there is one\<close>
  "cut sep t =
     (takeWhile (\<lambda>c. \<not> sep c) t,
      case dropWhile (\<lambda>c. \<not> sep c) t of [] \<Rightarrow> None | _ # r \<Rightarrow> Some r)"

definition decimal_literal :: "string \<Rightarrow> bool" where
  "decimal_literal t =
     (case cut (\<lambda>c. c = CHR ''e'' \<or> c = CHR ''E'') t of
        (mantissa, exponent) \<Rightarrow>
          (case cut (\<lambda>c. c = CHR ''.'') mantissa of
             (whole, None) \<Rightarrow> digitpart whole
           | (whole, Some fraction) \<Rightarrow>
               (whole = [] \<or> digitpart whole) \<and> (fraction = [] \<or> digitpart fraction)
               \<and> (whole \<noteq> [] \<or> fraction \<noteq> []))
          \<and> (case exponent of None \<Rightarrow> True | Some x \<Rightarrow> digitpart (drop_sign x)))"

definition py_float :: "string \<Rightarrow> error + pyval" where
  "py_float t =
     (let body = drop_sign (strip t)
      in if map lower body \<in> set [''inf'', ''infinity'', ''nan''] \<or> decimal_literal body
         then Inr (PFloat t) else Inl ValueError)"

subsection \<open>The route \<open>convert_lead\<close>\<close>

text \<open>
  The submitted form is a list of fields and texts; \<open>request.form.get(k)\<close> is \<open>None\<close> for a
  field that was not sent. \<open>session_user\<close> is \<open>session.get('user_id')\<close>. The route answers
  with a redirect and a flashed message, which is the result here; the check of the
  caller's role in front of the route is not part of the model.
\<close>

definition form_get :: "(string \<times> string) list \<Rightarrow> string \<Rightarrow> pyval" where
  "form_get form k = (case map_of form k of None \<Rightarrow> PNone | Some t \<Rightarrow> PStr t)"

definition form_budget :: "(string \<times> string) list \<Rightarrow> error + pyval" where
  \<comment> \<open>\<open>float(request.form.get('budget', 0))\<close>\<close>
  "form_budget form = (case map_of form ''budget'' of None \<Rightarrow> Inr (PFloat ''0'') | Some t \<Rightarrow> py_float t)"

definition lead_client_data :: "(string \<times> string) list \<Rightarrow> pydict \<Rightarrow> pydict" where
  \<comment> \<open>the dictionary \<open>client_data\<close> that the route builds from the form and the lead\<close>
  "lead_client_data form lead =
     [(''name'', form_get form ''client_name''),
      (''email'', get_or lead ''email'' (PStr [])),
      (''phone'', get_or lead ''phone'' (PStr [])),
      (''company'', form_get form ''company''),
      (''business_type'', get_or lead ''business_type'' PNone),
      (''address'', PStr [])]"

definition lead_project_data ::
  "(string \<times> string) list \<Rightarrow> pyval \<Rightarrow> pyval \<Rightarrow> pyval \<Rightarrow> pydict" where
  \<comment> \<open>the dictionary \<open>project_data\<close>; \<open>client_id\<close> is \<open>new_client['id']\<close> and \<open>budget\<close> the
      float read from the form\<close>
  "lead_project_data form client_id budget session_user =
     [(''name'', form_get form ''project_name''),
      (''type'', form_get form ''project_type''),
      (''client_id'', client_id),
      (''description'', form_get form ''description''),
      (''start_date'', form_get form ''start_date''),
      (''budget'', budget),
      (''created_by'', session_user)]"

definition convert_lead ::
  "dm \<Rightarrow> clock \<Rightarrow> (string \<times> string) list \<Rightarrow> pyval \<Rightarrow> string \<Rightarrow> (error + string) \<times> dm" where
  "convert_lead s now form session_user lead_id =
     (case get_lead_by_id s (PStr lead_id) of
        Inl e \<Rightarrow> (Inl e, s)
      | Inr None \<Rightarrow> (Inr ''Lead not found.'', s)
      | Inr (Some lead) \<Rightarrow>
          if lead = [] then (Inr ''Lead not found.'', s)
          else
            (case create_client s now (lead_client_data form lead) of
               (Inl e, s1) \<Rightarrow> (Inl e, s1)
             | (Inr new_client, s1) \<Rightarrow>
                 if new_client = [] then (Inr ''Failed to create client.'', s1)
                 else
                   (case getitem new_client ''id'' of
                      Inl e \<Rightarrow> (Inl e, s1)
                    | Inr client_id \<Rightarrow>
                        (case form_budget form of
                           Inl e \<Rightarrow> (Inl e, s1)
                         | Inr budget \<Rightarrow>
                             (case create_project s1 now
                                     (lead_project_data form client_id budget session_user) of
                                (Inl e, s2) \<Rightarrow> (Inl e, s2)
                              | (Inr new_project, s2) \<Rightarrow>
                                  if new_project = [] then (Inr ''Failed to create project.'', s2)
                                  else
                                    (case update_lead s2 now (PStr lead_id)
                                            [(''status'', PStr ''converted'')] of
                                       (Inl e, s3) \<Rightarrow> (Inl e, s3)
                                     | (Inr _, s3) \<Rightarrow>
                                         (Inr ''Lead converted successfully! Client and project created.'',
                                          s3)))))))"

section \<open>Example inputs\<close>

definition example_clock :: clock where
  "example_clock = \<lparr> c_year = 2025, c_month = 3, c_day = 9, c_time = ''10:15:00'' \<rparr>"

definition next_day_clock :: clock where
  "next_day_clock = \<lparr> c_year = 2025, c_month = 3, c_day = 10, c_time = ''08:00:00'' \<rparr>"

definition example_user_data :: pydict where
  "example_user_data =
     [(''name'', PStr ''Ann''), (''email'', PStr ''ann@example.org''),
      (''password'', PStr ''hunter2''), (''role'', PStr ''employee'')]"

definition example_task :: pydict where
  "example_task = [(''title'', PStr ''site survey''), (''created_by'', PStr ''admin_001'')]"

definition two_tasks :: dm where
  \<comment> \<open>two tasks created in the empty repository\<close>
  "two_tasks =
     snd (create_task (snd (create_task initial_dm example_clock example_task))
            example_clock example_task)"

definition task_deleted_then_created :: dm where
  \<comment> \<open>then \<open>delete_task('task_001')\<close>, then one more \<open>create_task\<close>\<close>
  "task_deleted_then_created =
     snd (create_task (snd (delete_task two_tasks (PStr ''task_001''))) example_clock example_task)"

definition no_analytics :: "dm \<Rightarrow> clock \<Rightarrow> error + pydict" where
  "no_analytics s now = Inr []"

definition same_day_clock :: clock where
  "same_day_clock = \<lparr> c_year = 2025, c_month = 3, c_day = 9, c_time = ''17:40:00'' \<rparr>"

definition example_project :: pydict where
  "example_project =
     [(''name'', PStr ''Car park''), (''type'', PStr ''installation''),
      (''client_id'', PStr ''client_001''), (''budget'', PInt 50000),
      (''created_by'', PStr ''admin_001'')]"

definition one_project :: dm where
  "one_project = snd (create_project initial_dm example_clock example_project)"

definition example_filters :: pydict where
  "example_filters = [(''client_id'', PStr ''client_001'')]"

section \<open>The shape of stored records\<close>


definition column :: "string \<Rightarrow> pydict list \<Rightarrow> (error + pyval) list" where
  \<comment> \<open>\<open>[r[k] for r in rs]\<close>, entry by entry\<close>
  "column k rs = map (\<lambda>r. getitem r k) rs"




definition with_employee_fields :: "dm \<Rightarrow> string \<Rightarrow> pydict \<Rightarrow> pydict" where
  \<comment> \<open>what the claim about \<open>get_attendance_by_date\<close> says of one stored record: a record of
      the date whose \<open>employee_id\<close> resolves to a user takes the user's name and department\<close>
  "with_employee_fields s date r =
     (if getitem r ''date'' = Inr (PStr date)
      then (case get_user_by_id s (get_or r ''employee_id'' PNone) of
              Inr (Some u) \<Rightarrow>
                if u = [] then r
                else setitem (setitem r ''employee_name'' (get_or u ''name'' PNone))
                       ''department'' (get_or u ''department'' PNone)
            | _ \<Rightarrow> r)
      else r)"

definition one_user :: dm where
  "one_user = snd (create_user initial_dm example_clock ''key-1'' example_user_data)"

definition two_attendance :: dm where
  \<comment> \<open>the user \<open>employee_001\<close> with a record of 9 March and a record of 8 March\<close>
  "two_attendance =
     snd (create_attendance_record
            (snd (create_attendance_record one_user
                    [(''employee_id'', PStr ''employee_001''), (''date'', PStr ''2025-03-09'')]))
            [(''employee_id'', PStr ''employee_001''), (''date'', PStr ''2025-03-08'')])"

definition date_reached :: "clock \<Rightarrow> pydict \<Rightarrow> string \<Rightarrow> bool" where
  \<comment> \<open>the date under key \<open>k\<close> is non-empty and not after today\<close>
  "date_reached now p k =
     (case date_field (get_or p k PNone) of Inr (Some d) \<Rightarrow> date_le d (today_date now) | _ \<Rightarrow> False)"

definition expected_status :: "clock \<Rightarrow> pydict \<Rightarrow> pyval" where
  \<comment> \<open>the status of a project after one call of \<open>auto_update_project_status\<close>, as a rule
      on its status and dates before the call\<close>
  "expected_status now p =
     (let status = get_or p ''status'' PNone
      in if status = PStr ''pending''
         then (if date_reached now p ''start_date''
               then (if date_reached now p ''end_date'' then PStr ''completed''
                     else PStr ''in_progress'')
               else status)
         else if status = PStr ''in_progress''
         then (if date_reached now p ''end_date'' then PStr ''completed'' else status)
         else status)"

definition overdue_project :: dm where
  \<comment> \<open>one pending project whose start and end dates are both past on the example day\<close>
  "overdue_project =
     snd (create_project initial_dm example_clock
            [(''name'', PStr ''Car park''), (''type'', PStr ''installation''),
             (''client_id'', PStr ''client_001''), (''start_date'', PStr ''2024-01-15''),
             (''end_date'', PStr ''2024-06-30''), (''created_by'', PStr ''admin_001'')])"

definition started_project :: dm where
  \<comment> \<open>one pending project that has started and does not end before December\<close>
  "started_project =
     snd (create_project initial_dm example_clock
            [(''name'', PStr ''Car park''), (''type'', PStr ''installation''),
             (''client_id'', PStr ''client_001''), (''start_date'', PStr ''2025-03-01''),
             (''end_date'', PStr ''2025-12-31''), (''created_by'', PStr ''admin_001'')])"


definition example_lead_data :: pydict where
  "example_lead_data =
     [(''name'', PStr ''Lisa Chen''), (''email'', PStr ''lisa@startupco.example''),
      (''business_type'', PStr ''installation''), (''created_by'', PStr ''admin_001'')]"

definition one_lead :: dm where
  "one_lead = snd (create_lead initial_dm example_clock example_lead_data)"

definition conversion_form :: "string \<Rightarrow> (string \<times> string) list" where
  \<comment> \<open>the conversion form with the given text in the budget field\<close>
  "conversion_form budget_text =
     [(''client_name'', ''StartupCo''), (''company'', ''StartupCo Ltd''),
      (''project_name'', ''Car park''), (''project_type'', ''installation''),
      (''description'', ''Automated parking''), (''start_date'', ''2025-04-01''),
      (''budget'', budget_text)]"

section \<open>Auxiliary facts about dictionaries and scans\<close>

lemma py_eq_str [simp]: "py_eq v (PStr t) = Inr (v = PStr t)"
  by (simp add: py_eq_def is_float_def is_number_def)

lemma getitem_setitem [simp]:
  "getitem (setitem d k v) k' = (if k' = k then Inr v else getitem d k')"
  by (simp add: getitem_def setitem_def update_conv')

lemma get_or_setitem [simp]:
  "get_or (setitem d k v) k' w = (if k' = k then v else get_or d k' w)"
  by (simp add: get_or_def setitem_def update_conv')




lemma field_is_setitem [simp]: "field_is k t (setitem r k v) = Inr (v = PStr t)"
  by (simp add: field_is_def)

lemma field_is_setitem_other [simp]:
  "k' \<noteq> k \<Longrightarrow> field_is k t (setitem r k' v) = field_is k t r"
  by (simp add: field_is_def)






lemma get_or_by_getitem:
  "get_or r k w = (case getitem r k of Inl e \<Rightarrow> w | Inr v \<Rightarrow> v)"
  by (simp add: get_or_def getitem_def split: option.splits)

lemma attendance_scan_effect:
  assumes "attendance_scan s date department rs = (Inr found, rs')"
  shows "rs' = map (with_employee_fields s date) rs"
  using assms
proof (induction rs arbitrary: found rs')
  case Nil
  then show ?case by simp
next
  case (Cons r rs)
  obtain res rest where tail: "attendance_scan s date department rs = (res, rest)"
    by (cases "attendance_scan s date department rs")
  with Cons.prems have ok: "\<exists>f. res = Inr f"
    by (auto split: sum.splits option.splits if_splits simp: Let_def)
  with Cons.IH tail have rest: "rest = map (with_employee_fields s date) rs"
    by auto
  from Cons.prems tail rest show ?case
    by (auto split: sum.splits option.splits if_splits
             simp: Let_def with_employee_fields_def get_or_by_getitem)
qed

lemma with_employee_fields_frame:
  assumes "k \<noteq> ''employee_name''" and "k \<noteq> ''department''"
  shows "getitem (with_employee_fields s date r) k = getitem r k"
  using assms by (auto simp: with_employee_fields_def split: sum.splits option.splits)

lemma project_step_other:
  assumes "project_step now p = Inr p'"
      and "get_or p ''status'' PNone \<noteq> PStr ''pending''"
      and "get_or p ''status'' PNone \<noteq> PStr ''in_progress''"
  shows "p' = p"
  using assms
  by (simp add: project_step_def ebind_def get_or_by_getitem split: sum.splits if_splits)

lemma project_step_active:
  assumes "project_step now p = Inr p'"
      and "getitem p ''status'' = Inr status"
      and "status = PStr ''pending'' \<or> status = PStr ''in_progress''"
  shows "\<exists>sd ed. date_field (get_or p ''start_date'' PNone) = Inr sd
           \<and> date_field (get_or p ''end_date'' PNone) = Inr ed
           \<and> p' = (let p1 = (if reached now sd \<and> status = PStr ''pending''
                               then set_status ''in_progress'' now p else p)
                    in if reached now ed \<and> getitem p1 ''status'' = Inr (PStr ''in_progress'')
                       then set_status ''completed'' now p1 else p1)"
proof -
  from assms obtain sv where sv: "getitem p ''start_date'' = Inr sv"
    by (cases "getitem p ''start_date''") (auto simp: project_step_def ebind_def)
  from assms sv obtain sd where sd: "date_field sv = Inr sd"
    by (cases "date_field sv") (auto simp: project_step_def ebind_def)
  from assms sv sd obtain ev where ev: "getitem p ''end_date'' = Inr ev"
    by (cases "getitem p ''end_date''") (auto simp: project_step_def ebind_def)
  from assms sv sd ev obtain ed where ed: "date_field ev = Inr ed"
    by (cases "date_field ev") (auto simp: project_step_def ebind_def)
  from sv ev have g: "get_or p ''start_date'' PNone = sv" "get_or p ''end_date'' PNone = ev"
    by (simp_all add: get_or_by_getitem)
  from assms(1) assms(2) assms(3) sv sd ev ed
  have "p' = (let p1 = (if reached now sd \<and> status = PStr ''pending''
                               then set_status ''in_progress'' now p else p)
                    in if reached now ed \<and> getitem p1 ''status'' = Inr (PStr ''in_progress'')
                       then set_status ''completed'' now p1 else p1)"
    by (auto simp add: project_step_def ebind_def Let_def)
  with sd ed g show ?thesis
    by simp
qed

lemma getitem_set_status [simp]:
  "getitem (set_status t now p) k =
     (if k = ''updated_at'' then Inr (PStr (isoformat now))
      else if k = ''status'' then Inr (PStr t) else getitem p k)"
  by (simp add: set_status_def)

lemma project_step_rule:
  assumes "project_step now p = Inr p'"
  shows "getitem p' ''status'' = Inr (expected_status now p)
       \<and> (\<forall>k. k \<noteq> ''status'' \<and> k \<noteq> ''updated_at'' \<longrightarrow> getitem p' k = getitem p k)
       \<and> (expected_status now p = get_or p ''status'' PNone \<longrightarrow> p' = p)"
proof -
  from assms obtain status where st: "getitem p ''status'' = Inr status"
    by (cases "getitem p ''status''") (auto simp: project_step_def ebind_def)
  then have g: "get_or p ''status'' PNone = status"
    by (simp add: get_or_by_getitem)
  show ?thesis
  proof (cases "status = PStr ''pending'' \<or> status = PStr ''in_progress''")
    case False
    with g assms have "p' = p"
      by (auto intro: project_step_other)
    with False g st show ?thesis
      by (simp add: expected_status_def)
  next
    case True
    from project_step_active [OF assms st True] obtain sd ed where
      sd: "date_field (get_or p ''start_date'' PNone) = Inr sd"
      and ed: "date_field (get_or p ''end_date'' PNone) = Inr ed"
      and p': "p' = (let p1 = (if reached now sd \<and> status = PStr ''pending''
                               then set_status ''in_progress'' now p else p)
                    in if reached now ed \<and> getitem p1 ''status'' = Inr (PStr ''in_progress'')
                       then set_status ''completed'' now p1 else p1)"
      by blast
    have rs: "date_reached now p ''start_date'' = reached now sd"
      and re: "date_reached now p ''end_date'' = reached now ed"
      using sd ed by (simp_all add: date_reached_def reached_def split: option.splits)
    from True show ?thesis
    proof
      assume "status = PStr ''pending''"
      with p' g st rs re show ?thesis
        by (simp add: expected_status_def Let_def)
    next
      assume "status = PStr ''in_progress''"
      with p' g st rs re show ?thesis
        by (simp add: expected_status_def Let_def)
    qed
  qed
qed

lemma auto_update_loop_steps:
  assumes "auto_update_loop now ps = (None, ps')"
  shows "list_all2 (\<lambda>p p'. project_step now p = Inr p') ps ps'"
  using assms
proof (induction ps arbitrary: ps')
  case Nil
  then show ?case by simp
next
  case (Cons p ps)
  then show ?case
    by (auto split: sum.splits prod.splits)
qed




lemma find_by_id_nonempty:
  assumes "find_by_id rs i = Inr (Some r)"
  shows "r \<noteq> []"
  using assms
proof (induction rs)
  case Nil
  then show ?case by simp
next
  case (Cons a rs)
  then show ?case
    by (cases "getitem a ''id''") (auto simp: getitem_def split: sum.splits if_splits)
qed

lemma find_by_id_split:
  assumes "find_by_id rs i = Inr (Some r)"
  shows "\<exists>xs ys. rs = xs @ r # ys \<and> modify_found f rs i = xs @ f r # ys"
  using assms
proof (induction rs)
  case Nil
  then show ?case by simp
next
  case (Cons a rs)
  from Cons.prems obtain v b where v: "getitem a ''id'' = Inr v" and b: "py_eq v i = Inr b"
    by (cases "getitem a ''id''"; cases "py_eq (projr (getitem a ''id'')) i") auto
  show ?case
  proof (cases b)
    case True
    with v b Cons.prems have "a = r" by simp
    with v b True have "a # rs = [] @ r # rs \<and> modify_found f (a # rs) i = [] @ f r # rs"
      by simp
    then show ?thesis by blast
  next
    case False
    with v b Cons.prems have "find_by_id rs i = Inr (Some r)" by simp
    with Cons.IH obtain xs ys where "rs = xs @ r # ys" "modify_found f rs i = xs @ f r # ys"
      by blast
    with v b False have "a # rs = (a # xs) @ r # ys
        \<and> modify_found f (a # rs) i = (a # xs) @ f r # ys"
      by simp
    then show ?thesis by blast
  qed
qed

lemma create_client_from_lead:
  "\<exists>c. create_client s now (lead_client_data form lead)
          = (Inr c, save_data (s\<lparr>data := (data s)\<lparr>clients := clients (data s) @ [c]\<rparr>\<rparr>))
       \<and> c \<noteq> [] \<and> getitem c ''id'' = Inr (PStr (new_id ''client'' (clients (data s))))"
  by (simp add: create_client_def client_record_def lead_client_data_def ebind_def getitem_def)

lemma create_project_from_lead:
  "\<exists>p. create_project s now (lead_project_data form client_id budget session_user)
          = (Inr p, save_data (s\<lparr>data := (data s)\<lparr>projects := projects (data s) @ [p]\<rparr>\<rparr>))
       \<and> p \<noteq> [] \<and> getitem p ''client_id'' = Inr client_id"
  by (simp add: create_project_def project_record_def lead_project_data_def ebind_def getitem_def)

lemma update_lead_found:
  assumes "find_by_id (leads (data s)) i = Inr (Some lead)"
  shows "update_lead s now i updates
           = (Inr (Some (apply_updates updates now lead)),
              save_data (s\<lparr>data := (data s)\<lparr>leads :=
                modify_found (apply_updates updates now) (leads (data s)) i\<rparr>\<rparr>))"
  using assms find_by_id_nonempty [OF assms]
  by (simp add: update_lead_def get_lead_by_id_def)

section \<open>Properties\<close>

subsection \<open>Passwords are stored as given\<close>

text \<open>
  Claim C10. Whenever \<open>create_user\<close> returns a record, the \<open>password\<close> entry of that record
  is the \<open>password\<close> entry of the input, unchanged, and the record is the one appended to
  the users in memory and in the document written to the file. The model of
  \<open>create_user\<close> calls no hashing function, as the source calls none.
\<close>

theorem create_user_stores_password_verbatim:
  assumes "create_user s now api_key user_data = (Inr user, s')"
  shows "getitem user ''password'' = getitem user_data ''password''
       \<and> (\<exists>p. getitem user ''password'' = Inr p)
       \<and> users (data s') = users (data s) @ [user]
       \<and> users (disk s') = users (data s) @ [user]"
  using assms
  by (auto simp: create_user_def user_record_def ebind_def getitem_def save_data_def
           split: sum.splits option.splits)

theorem create_user_stores_password_verbatim_witness:
  "\<exists>user s'. create_user initial_dm example_clock ''key-1'' example_user_data = (Inr user, s')
      \<and> getitem user ''password'' = Inr (PStr ''hunter2'')
      \<and> last (users (disk s')) = user"
proof -
  let ?r = "create_user initial_dm example_clock ''key-1'' example_user_data"
  have f: "fst ?r = Inr
     [(''id'', PStr ''employee_001''), (''name'', PStr ''Ann''), (''email'', PStr ''ann@example.org''),
      (''password'', PStr ''hunter2''), (''role'', PStr ''employee''),
      (''department'', PStr ''General''), (''created_at'', PStr ''2025-03-09T10:15:00''),
      (''status'', PStr ''active''), (''api_key'', PStr ''key-1'')]"
    by code_simp
  then obtain u where h: "?r = (Inr u, snd ?r)"
    by (metis prod.collapse)
  have g: "getitem example_user_data ''password'' = Inr (PStr ''hunter2'')"
    by code_simp
  from create_user_stores_password_verbatim [OF h] g h show ?thesis
    by (intro exI [of _ u] exI [of _ "snd ?r"]) simp
qed

subsection \<open>Identifiers after a hard delete\<close>

text \<open>
  Claim C4. Identifiers are meant to be unique within a collection, and they are numbered
  from the length of the collection. \<open>delete_task\<close> removes the record, so the length
  drops: after two tasks are created, \<open>task_001\<close> is deleted and a third task is created,
  the collection holds two tasks that are both called \<open>task_002\<close>.
\<close>

theorem task_id_reused_after_delete:
  "column ''id'' (tasks (data two_tasks)) = [Inr (PStr ''task_001''), Inr (PStr ''task_002'')]
   \<and> column ''id'' (tasks (data task_deleted_then_created))
       = [Inr (PStr ''task_002''), Inr (PStr ''task_002'')]"
  by code_simp

subsection \<open>Custom reports do not read their filters\<close>

text \<open>
  Claim C8. For each of the three report types and any two filter arguments, the reports
  computed on the same repository at the same clock reading have the same \<open>data\<close> (or
  raise the same exception while computing it), and a report returned echoes its filter
  argument in \<open>filters_applied\<close>.
\<close>

theorem generate_custom_report_ignores_filters:
  assumes "rtype \<in> {''financial'', ''operational'', ''performance''}"
  shows "(\<exists>d. data_of (generate_custom_report operational performance s now rtype F1) = Some d
            \<and> data_of (generate_custom_report operational performance s now rtype F2) = Some d)
       \<and> (\<forall>rep. generate_custom_report operational performance s now rtype F1 = Inr (Report rep)
            \<longrightarrow> filters_applied rep = filters_or_empty F1)"
  using assms
  by (auto simp: generate_custom_report_def generate_financial_report_def
        generate_operational_report_def generate_performance_report_def data_of_def ebind_def
        split: sum.splits)

theorem generate_custom_report_ignores_filters_witness:
  "''financial'' \<in> {''financial'', ''operational'', ''performance''}
   \<and> data_of (generate_custom_report no_analytics no_analytics one_project example_clock
                ''financial'' (Some example_filters))
     = Some (Inr [(''total_revenue'', PInt 50000), (''installation_revenue'', PInt 50000),
                  (''manufacturing_revenue'', PInt 0)])
   \<and> data_of (generate_custom_report no_analytics no_analytics one_project example_clock
                ''financial'' None)
     = Some (Inr [(''total_revenue'', PInt 50000), (''installation_revenue'', PInt 50000),
                  (''manufacturing_revenue'', PInt 0)])
   \<and> (\<exists>rep. generate_custom_report no_analytics no_analytics one_project example_clock
                ''financial'' (Some example_filters) = Inr (Report rep)
            \<and> filters_applied rep = example_filters)"
proof -
  let ?g = "generate_custom_report no_analytics no_analytics one_project example_clock ''financial''"
  have m: "''financial'' \<in> {''financial'', ''operational'', ''performance''}"
    by simp
  have d: "data_of (?g (Some example_filters))
     = Some (Inr [(''total_revenue'', PInt 50000), (''installation_revenue'', PInt 50000),
                  (''manufacturing_revenue'', PInt 0)])"
    by code_simp
  have r: "\<exists>rep. ?g (Some example_filters) = Inr (Report rep)"
    using d by (auto simp: data_of_def split: sum.splits reply.splits)
  from generate_custom_report_ignores_filters [OF m, of no_analytics no_analytics one_project
         example_clock "Some example_filters" None] d r m
  show ?thesis
    by (auto simp: filters_or_empty_def)
qed

subsection \<open>The daily code\<close>

text \<open>
  Claim C7, as the code has it. After a call of \<open>get_daily_otp\<close>, a second call on the same
  calendar date returns the same value and changes nothing. A call on another date
  returns the code made from its own fresh draw, \<open>str(draw).zfill(5)\<close>, and stores it with
  the new date: it differs from the value of the day before exactly when the new draw
  gives a different code.
\<close>

theorem get_daily_otp_by_day:
  assumes "get_daily_otp s now1 draw1 = (v1, s1)"
  shows "(strftime_ymd now2 = strftime_ymd now1 \<longrightarrow> get_daily_otp s1 now2 draw2 = (v1, s1))
       \<and> (strftime_ymd now2 \<noteq> strftime_ymd now1 \<longrightarrow>
            fst (get_daily_otp s1 now2 draw2) = PStr (zfill 5 (dec draw2))
          \<and> daily_otp_date (data (snd (get_daily_otp s1 now2 draw2)))
              = Some (PStr (strftime_ymd now2)))"
  using assms
  by (auto simp: get_daily_otp_def generate_daily_otp_def set_daily_otp_def save_data_def Let_def
           split: if_splits option.splits)

theorem get_daily_otp_by_day_witness:
  "get_daily_otp (snd (get_daily_otp initial_dm example_clock 7)) same_day_clock 9
     = (PStr ''00007'', snd (get_daily_otp initial_dm example_clock 7))
   \<and> fst (get_daily_otp (snd (get_daily_otp initial_dm example_clock 7)) next_day_clock 9)
     = PStr ''00009''"
proof -
  have a: "get_daily_otp initial_dm example_clock 7
             = (PStr ''00007'', snd (get_daily_otp initial_dm example_clock 7))"
    by (simp add: prod_eq_iff) code_simp
  have b: "strftime_ymd same_day_clock = strftime_ymd example_clock"
    by code_simp
  have c: "strftime_ymd next_day_clock \<noteq> strftime_ymd example_clock"
    by code_simp
  have e: "PStr (zfill 5 (dec 9)) = PStr ''00009''"
    by code_simp
  from get_daily_otp_by_day [OF a, of same_day_clock 9] b
       get_daily_otp_by_day [OF a, of next_day_clock 9] c e
  show ?thesis
    by simp
qed

text \<open>
  The claim as stated asks for a different value on the following date. The draw is
  independent of the stored code: with the draw 7 on both days the value is \<open>00007\<close>
  twice.
\<close>

theorem get_daily_otp_next_day_counterexample:
  "strftime_ymd next_day_clock \<noteq> strftime_ymd example_clock
   \<and> fst (get_daily_otp (snd (get_daily_otp initial_dm example_clock 7)) next_day_clock 7)
     = fst (get_daily_otp initial_dm example_clock 7)"
  by code_simp

subsection \<open>Deleting a client\<close>



subsection \<open>A read query that writes\<close>

text \<open>
  Claim C9. When \<open>get_attendance_by_date\<close> returns, the attendance records in memory are the
  former ones with \<open>employee_name\<close> and \<open>department\<close> written into every record of the date
  whose \<open>employee_id\<close> resolves to a user (also into those the department filter leaves
  out of the result); every other entry of every record and every other part of the
  repository is as before; the file is not written by the call, and the next
  \<open>save_data\<close> writes the records with the added entries.
\<close>

theorem get_attendance_by_date_writes_store:
  assumes "get_attendance_by_date s date department = (Inr found, s')"
  shows "data s' = (data s)\<lparr>attendance := map (with_employee_fields s date) (attendance (data s))\<rparr>
       \<and> disk s' = disk s
       \<and> disk (save_data s') = data s'
       \<and> (\<forall>r\<in>set (attendance (data s)). \<forall>k. k \<noteq> ''employee_name'' \<and> k \<noteq> ''department''
             \<longrightarrow> getitem (with_employee_fields s date r) k = getitem r k)"
proof -
  obtain res rs' where sc: "attendance_scan s date department (attendance (data s)) = (res, rs')"
    by (cases "attendance_scan s date department (attendance (data s))")
  with assms have "res = Inr found" and s': "s' = s\<lparr>data := (data s)\<lparr>attendance := rs'\<rparr>\<rparr>"
    by (auto simp: get_attendance_by_date_def)
  with sc have "rs' = map (with_employee_fields s date) (attendance (data s))"
    by (auto dest: attendance_scan_effect)
  with s' show ?thesis
    by (simp add: save_data_def with_employee_fields_frame)
qed

theorem get_attendance_by_date_writes_store_witness:
  "\<exists>found s'. get_attendance_by_date two_attendance ''2025-03-09'' None = (Inr found, s')
     \<and> map (\<lambda>r. (map_of r ''employee_name'', map_of r ''department'')) (attendance (data two_attendance))
         = [(None, None), (None, None)]
     \<and> map (\<lambda>r. (map_of r ''employee_name'', map_of r ''department'')) (attendance (data s'))
         = [(Some (PStr ''Ann''), Some (PStr ''General'')), (None, None)]
     \<and> attendance (disk s') = attendance (data two_attendance)
     \<and> attendance (disk (save_data s')) = attendance (data s')"
proof -
  let ?r = "get_attendance_by_date two_attendance ''2025-03-09'' None"
  have "\<not> isl (fst ?r)"
    by code_simp
  then obtain found where "fst ?r = Inr found"
    by (cases "fst ?r") auto
  then have h: "?r = (Inr found, snd ?r)"
    by (simp add: prod_eq_iff)
  have a: "map (\<lambda>r. (map_of r ''employee_name'', map_of r ''department''))
             (map (with_employee_fields two_attendance ''2025-03-09'') (attendance (data two_attendance)))
           = [(Some (PStr ''Ann''), Some (PStr ''General'')), (None, None)]"
    by code_simp
  have b: "map (\<lambda>r. (map_of r ''employee_name'', map_of r ''department'')) (attendance (data two_attendance))
         = [(None, None), (None, None)]"
    by code_simp
  have c: "disk two_attendance = data two_attendance"
    by code_simp
  from get_attendance_by_date_writes_store [OF h] a b c h show ?thesis
    by (intro exI [of _ found] exI [of _ "snd ?r"]) simp
qed

subsection \<open>Status changes by date\<close>

text \<open>
  Claim C6, as the code has it. In a call of \<open>auto_update_project_status\<close> that returns,
  every project ends with the status that \<open>expected_status\<close> gives: a pending project
  whose start date is reached becomes \<open>in_progress\<close>, unless its end date is reached
  too, in which case the same call carries it on to \<open>completed\<close>; an \<open>in_progress\<close>
  project whose end date is reached becomes \<open>completed\<close>; a date is reached when it is
  non-empty and not after today. Only \<open>status\<close> and \<open>updated_at\<close> are written, and a
  project whose status stays is left as it was, which covers every other status.
\<close>

theorem auto_update_project_status_rule:
  assumes "auto_update_project_status s now = (Inr (), s')"
  shows "list_all2
           (\<lambda>p p'. getitem p' ''status'' = Inr (expected_status now p)
                \<and> (\<forall>k. k \<noteq> ''status'' \<and> k \<noteq> ''updated_at'' \<longrightarrow> getitem p' k = getitem p k)
                \<and> (expected_status now p = get_or p ''status'' PNone \<longrightarrow> p' = p))
           (projects (data s)) (projects (data s'))"
proof -
  obtain r ps' where l: "auto_update_loop now (projects (data s)) = (r, ps')"
    by (cases "auto_update_loop now (projects (data s))")
  with assms have "r = None" and "projects (data s') = ps'"
    by (auto simp: auto_update_project_status_def save_data_def split: option.splits)
  with l have "list_all2 (\<lambda>p p'. project_step now p = Inr p') (projects (data s)) (projects (data s'))"
    by (auto dest: auto_update_loop_steps)
  then show ?thesis
    by (rule list_all2_mono) (rule project_step_rule)
qed

text \<open>
  The claim as stated sends a pending project to \<open>in_progress\<close> exactly when its start
  date is reached. The two tests of the loop body run one after the other, so a pending
  project whose start and end dates are both past is \<open>completed\<close> after one call.
\<close>

theorem auto_update_project_status_counterexample:
  "column ''status'' (projects (data overdue_project)) = [Inr (PStr ''pending'')]
   \<and> date_reached example_clock (hd (projects (data overdue_project))) ''start_date''
   \<and> date_reached example_clock (hd (projects (data overdue_project))) ''end_date''
   \<and> fst (auto_update_project_status overdue_project example_clock) = Inr ()
   \<and> column ''status''
         (projects (data (snd (auto_update_project_status overdue_project example_clock))))
       = [Inr (PStr ''completed'')]"
  by code_simp

theorem auto_update_project_status_rule_witness:
  "fst (auto_update_project_status started_project example_clock) = Inr ()
   \<and> map (\<lambda>p. getitem p ''status'') (projects (data started_project)) = [Inr (PStr ''pending'')]
   \<and> map (\<lambda>p. getitem p ''status'')
       (projects (data (snd (auto_update_project_status started_project example_clock))))
     = [Inr (PStr ''in_progress'')]"
proof -
  let ?r = "auto_update_project_status started_project example_clock"
  have f: "fst ?r = Inr ()"
    by code_simp
  then have h: "?r = (Inr (), snd ?r)"
    by (simp add: prod_eq_iff)
  have e: "map (expected_status example_clock) (projects (data started_project)) = [PStr ''in_progress'']"
    by code_simp
  have b: "map (\<lambda>p. getitem p ''status'') (projects (data started_project)) = [Inr (PStr ''pending'')]"
    by code_simp
  from e obtain p where p: "projects (data started_project) = [p]"
    and ep: "expected_status example_clock p = PStr ''in_progress''"
    by (cases "projects (data started_project)") simp_all
  from auto_update_project_status_rule [OF h] p
  obtain p' where "projects (data (snd ?r)) = [p']"
    and "getitem p' ''status'' = Inr (expected_status example_clock p)"
    by (simp add: list_all2_Cons1) blast
  with ep have "map (\<lambda>p. getitem p ''status'') (projects (data (snd ?r))) = [Inr (PStr ''in_progress'')]"
    by simp
  with f b show ?thesis
    by simp
qed

subsection \<open>Installation revenue after a new project\<close>




subsection \<open>Converting a lead\<close>

text \<open>
  Claim C2, as the code has it. For every lead that \<open>get_lead_by_id\<close> finds and every
  form whose budget field is absent or is text that \<open>float\<close> accepts, \<open>convert_lead\<close>
  appends exactly one client and exactly one project whose \<open>client_id\<close> is the new
  client's id, and writes \<open>status = converted\<close> (and \<open>updated_at\<close>) into that lead; the
  other leads, the users, the tasks and the attendance records are as before, and the
  result is saved.
\<close>

theorem convert_lead_effect:
  assumes "get_lead_by_id s (PStr lead_id) = Inr (Some lead)"
      and "form_budget form = Inr budget"
  shows "\<exists>s' c p xs ys.
           convert_lead s now form session_user lead_id
             = (Inr ''Lead converted successfully! Client and project created.'', s')
         \<and> clients (data s') = clients (data s) @ [c]
         \<and> projects (data s') = projects (data s) @ [p]
         \<and> getitem p ''client_id'' = getitem c ''id''
         \<and> getitem c ''id'' = Inr (PStr (new_id ''client'' (clients (data s))))
         \<and> leads (data s) = xs @ lead # ys
         \<and> leads (data s') = xs @ apply_updates [(''status'', PStr ''converted'')] now lead # ys
         \<and> getitem (apply_updates [(''status'', PStr ''converted'')] now lead) ''status''
               = Inr (PStr ''converted'')
         \<and> users (data s') = users (data s) \<and> tasks (data s') = tasks (data s)
         \<and> attendance (data s') = attendance (data s)
         \<and> disk s' = data s'"
proof -
  let ?up = "apply_updates [(''status'', PStr ''converted'')] now"
  from assms(1) have f: "find_by_id (leads (data s)) (PStr lead_id) = Inr (Some lead)"
    by (simp add: get_lead_by_id_def)
  then have ne: "lead \<noteq> []"
    by (rule find_by_id_nonempty)
  obtain c where c: "create_client s now (lead_client_data form lead)
          = (Inr c, save_data (s\<lparr>data := (data s)\<lparr>clients := clients (data s) @ [c]\<rparr>\<rparr>))"
    and cne: "c \<noteq> []"
    and cid: "getitem c ''id'' = Inr (PStr (new_id ''client'' (clients (data s))))"
    using create_client_from_lead by blast
  let ?s1 = "save_data (s\<lparr>data := (data s)\<lparr>clients := clients (data s) @ [c]\<rparr>\<rparr>)"
  let ?ci = "PStr (new_id ''client'' (clients (data s)))"
  obtain p where p: "create_project ?s1 now (lead_project_data form ?ci budget session_user)
          = (Inr p, save_data (?s1\<lparr>data := (data ?s1)\<lparr>projects := projects (data ?s1) @ [p]\<rparr>\<rparr>))"
    and pne: "p \<noteq> []"
    and pci: "getitem p ''client_id'' = Inr ?ci"
    using create_project_from_lead by blast
  let ?s2 = "save_data (?s1\<lparr>data := (data ?s1)\<lparr>projects := projects (data ?s1) @ [p]\<rparr>\<rparr>)"
  have l2: "leads (data ?s2) = leads (data s)"
    by (simp add: save_data_def)
  with f have f2: "find_by_id (leads (data ?s2)) (PStr lead_id) = Inr (Some lead)"
    by simp
  let ?s3 = "save_data (?s2\<lparr>data := (data ?s2)\<lparr>leads :=
                modify_found ?up (leads (data ?s2)) (PStr lead_id)\<rparr>\<rparr>)"
  have u: "update_lead ?s2 now (PStr lead_id) [(''status'', PStr ''converted'')]
             = (Inr (Some (?up lead)), ?s3)"
    by (rule update_lead_found [OF f2])
  have r: "convert_lead s now form session_user lead_id
             = (Inr ''Lead converted successfully! Client and project created.'', ?s3)"
    unfolding convert_lead_def using assms ne c cne cid p pne u
    by simp
  from find_by_id_split [OF f, of ?up] obtain xs ys where
    sp: "leads (data s) = xs @ lead # ys"
    "modify_found ?up (leads (data s)) (PStr lead_id) = xs @ ?up lead # ys"
    by blast
  have st: "getitem (?up lead) ''status'' = Inr (PStr ''converted'')"
    by (simp add: apply_updates_def)
  have d3: "clients (data ?s3) = clients (data s) @ [c]"
    "projects (data ?s3) = projects (data s) @ [p]"
    "leads (data ?s3) = modify_found ?up (leads (data s)) (PStr lead_id)"
    "users (data ?s3) = users (data s)" "tasks (data ?s3) = tasks (data s)"
    "attendance (data ?s3) = attendance (data s)" "disk ?s3 = data ?s3"
    by (simp_all add: save_data_def)
  show ?thesis
    apply (rule exI [of _ ?s3], rule exI [of _ c], rule exI [of _ p])
    apply (rule exI [of _ xs], rule exI [of _ ys])
    using r d3 sp st pci cid
    apply simp
    done
qed

text \<open>
  The claim as stated is for every conversion of a lead that is present. The route reads
  the budget with \<open>float\<close> after the client has been created and saved: with the budget
  field left empty, \<open>float('')\<close> raises \<open>ValueError\<close>, and the repository is left with the
  new client, no project, and the lead still \<open>new\<close>.
\<close>

theorem convert_lead_empty_budget_counterexample:
  "fst (convert_lead one_lead example_clock (conversion_form []) (PStr ''admin_001'') ''lead_001'')
     = Inl ValueError
   \<and> column ''id'' (leads (data one_lead)) = [Inr (PStr ''lead_001'')]
   \<and> clients (data one_lead) = []
   \<and> column ''id''
         (clients (data (snd (convert_lead one_lead example_clock (conversion_form [])
                                (PStr ''admin_001'') ''lead_001''))))
       = [Inr (PStr ''client_001'')]
   \<and> projects (data (snd (convert_lead one_lead example_clock (conversion_form [])
                              (PStr ''admin_001'') ''lead_001''))) = []
   \<and> column ''status''
         (leads (data (snd (convert_lead one_lead example_clock (conversion_form [])
                                (PStr ''admin_001'') ''lead_001''))))
       = [Inr (PStr ''new'')]"
  by code_simp

theorem convert_lead_effect_witness:
  "fst (convert_lead one_lead example_clock (conversion_form ''50000'') (PStr ''admin_001'')
          ''lead_001'')
     = Inr ''Lead converted successfully! Client and project created.''
   \<and> length (clients (data (snd (convert_lead one_lead example_clock (conversion_form ''50000'')
                                     (PStr ''admin_001'') ''lead_001''))))
     = length (clients (data one_lead)) + 1
   \<and> length (projects (data (snd (convert_lead one_lead example_clock (conversion_form ''50000'')
                                     (PStr ''admin_001'') ''lead_001''))))
     = length (projects (data one_lead)) + 1"
proof -
  have 1: "get_lead_by_id one_lead (PStr ''lead_001'') = Inr (Some (hd (leads (data one_lead))))"
    by code_simp
  have 2: "form_budget (conversion_form ''50000'') = Inr (PFloat ''50000'')"
    by code_simp
  from convert_lead_effect [OF 1 2, of example_clock "PStr ''admin_001''"] show ?thesis
    by auto
qed

end
